theory Spec2Isabelle
  imports Complex_Main "HOL-Library.AList"
begin

section \<open>The document value type\<close>

text \<open>
  The header \<^verbatim>\<open>libgeojson.h\<close> builds values of \<^verbatim>\<open>nlohmann::json\<close>. The part of that
  library the header uses is embedded here: the value kinds, the default (null) value,
  \<^verbatim>\<open>array()\<close>, \<^verbatim>\<open>push_back\<close>, \<^verbatim>\<open>size\<close>, \<^verbatim>\<open>operator[]\<close> and \<^verbatim>\<open>get<double>\<close>.

  The type parameter \<open>'a\<close> stands for the C++ \<^verbatim>\<open>double\<close>. Definitions only ask for the
  operations \<open>0\<close>, \<open>+\<close>, \<open>-\<close>, \<open>*\<close> and \<open><\<close> on it, with no law assumed, so every
  theorem stated for an arbitrary \<open>'a\<close> holds whatever the arithmetic does (rounding
  included). Theorems that need algebra say so in their sort, \<open>linordered_idom\<close> or
  \<open>comm_ring\<close>: they speak of exact arithmetic. The type \<open>dbl\<close> below is the rounded
  arithmetic of \<^verbatim>\<open>double\<close> on whole numbers. The library stores a number as a signed integer, an
  unsigned integer or a float and compares them by value; here a number is one value of
  \<open>'a\<close>. Objects are association lists in insertion order with unique keys; no
  definition below observes the order.
\<close>

datatype 'a json =
    JNull
  | JBool bool
  | JNum 'a
  | JStr string
  | JArr "'a json list"
  | JObj "(string \<times> 'a json) list"

text \<open>
  Exceptions are values. \<open>domain_error\<close> is \<^verbatim>\<open>std::domain_error\<close> with its message, the
  error the header throws itself; \<open>type_error\<close> is the library's exception with its
  number, raised by an operation applied to a value of the wrong kind; \<open>bad_index\<close>
  stands for an index outside an array, where the library has no defined result for a
  constant value.
\<close>

datatype error = domain_error string | type_error nat | bad_index

definition bind_err :: "error + 'b \<Rightarrow> ('b \<Rightarrow> error + 'c) \<Rightarrow> error + 'c" where
  "bind_err m f = (case m of Inl e \<Rightarrow> Inl e | Inr v \<Rightarrow> f v)"

text \<open>\<^verbatim>\<open>nlohmann::json::array()\<close>: the empty array.\<close>

definition array_json :: "'a json" where
  "array_json = JArr []"

text \<open>\<^verbatim>\<open>j.push_back(v)\<close>: a null value becomes an array first; anything but an array throws.\<close>

definition push_back :: "'a json \<Rightarrow> 'a json \<Rightarrow> error + 'a json" where
  "push_back j v =
     (case j of
        JNull \<Rightarrow> Inr (JArr [v])
      | JArr xs \<Rightarrow> Inr (JArr (xs @ [v]))
      | _ \<Rightarrow> Inl (type_error 308))"

text \<open>\<^verbatim>\<open>j.size()\<close>: 0 for null, the number of elements of an array or object, 1 otherwise.\<close>

definition jsize :: "'a json \<Rightarrow> nat" where
  "jsize j =
     (case j of
        JNull \<Rightarrow> 0
      | JArr xs \<Rightarrow> length xs
      | JObj kvs \<Rightarrow> length kvs
      | _ \<Rightarrow> 1)"

text \<open>
  \<^verbatim>\<open>j[i]\<close> with a numeric index. The header only indexes arrays inside their range;
  for a constant value that is no array the library throws, and an index beyond the end
  is reported as \<open>bad_index\<close>.
\<close>

definition at_index :: "'a json \<Rightarrow> nat \<Rightarrow> error + 'a json" where
  "at_index j i =
     (case j of
        JArr xs \<Rightarrow> if i < length xs then Inr (xs ! i) else Inl bad_index
      | _ \<Rightarrow> Inl (type_error 305))"

text \<open>
  \<^verbatim>\<open>std::swap(j[i], j[k])\<close>. The header swaps elements of an array at indices inside
  its range; anything else is reported as for \<^verbatim>\<open>j[i]\<close>.
\<close>

definition swap_at :: "'a json \<Rightarrow> nat \<Rightarrow> nat \<Rightarrow> error + 'a json" where
  "swap_at j i k =
     (case j of
        JArr xs \<Rightarrow>
          if i < length xs \<and> k < length xs
          then Inr (JArr (xs[i := xs ! k, k := xs ! i]))
          else Inl bad_index
      | _ \<Rightarrow> Inl (type_error 305))"

text \<open>\<^verbatim>\<open>j.get<double>()\<close>: the number held, an exception for any other kind.\<close>

definition get_double :: "'a json \<Rightarrow> error + 'a" where
  "get_double j = (case j of JNum x \<Rightarrow> Inr x | _ \<Rightarrow> Inl (type_error 302))"

text \<open>\<^verbatim>\<open>j[key] = v\<close>: a null value becomes an object first; anything but an object throws.\<close>

definition set_member :: "'a json \<Rightarrow> string \<Rightarrow> 'a json \<Rightarrow> error + 'a json" where
  "set_member j key v =
     (case j of
        JNull \<Rightarrow> Inr (JObj [(key, v)])
      | JObj kvs \<Rightarrow> Inr (JObj (AList.update key v kvs))
      | _ \<Rightarrow> Inl (type_error 305))"

text \<open>\<^verbatim>\<open>j.find(key)\<close>: the member of an object under a key, if there is one.\<close>

definition find_member :: "'a json \<Rightarrow> string \<Rightarrow> 'a json option" where
  "find_member j key = (case j of JObj kvs \<Rightarrow> map_of kvs key | _ \<Rightarrow> None)"

section \<open>Loops\<close>

text \<open>
  Every loop of the header is \<^verbatim>\<open>for (size_t i = 0; i < n; i++) body\<close>. The state is what
  the body updates; an exception thrown by the body leaves the loop.
\<close>

function for_loop :: "nat \<Rightarrow> nat \<Rightarrow> (nat \<Rightarrow> 's \<Rightarrow> error + 's) \<Rightarrow> 's \<Rightarrow> error + 's" where
  "for_loop i n body s =
     (if i < n
      then (case body i s of Inl e \<Rightarrow> Inl e | Inr s' \<Rightarrow> for_loop (Suc i) n body s')
      else Inr s)"
  by pat_completeness auto
termination
  by (relation "measure (\<lambda>(i, n, body, s). n - i)") auto

declare for_loop.simps [simp del]

section \<open>Type names and positions\<close>

datatype Type =
    Type_Point
  | Type_MultiPoint
  | Type_LineString
  | Type_MultiLineString
  | Type_Polygon
  | Type_MultiPolygon
  | Type_GeometryCollection
  | Type_Feature
  | Type_FeatureCollection

fun TypeName :: "Type \<Rightarrow> string" where
  "TypeName Type_Point = ''Point''"
| "TypeName Type_MultiPoint = ''MultiPoint''"
| "TypeName Type_LineString = ''LineString''"
| "TypeName Type_MultiLineString = ''MultiLineString''"
| "TypeName Type_Polygon = ''Polygon''"
| "TypeName Type_MultiPolygon = ''MultiPolygon''"
| "TypeName Type_GeometryCollection = ''GeometryCollection''"
| "TypeName Type_Feature = ''Feature''"
| "TypeName Type_FeatureCollection = ''FeatureCollection''"

definition Position3 :: "'a \<Rightarrow> 'a \<Rightarrow> 'a \<Rightarrow> 'a json" where
  "Position3 lon lat alt = JArr [JNum lon, JNum lat, JNum alt]"

definition Position2 :: "'a \<Rightarrow> 'a \<Rightarrow> 'a json" where
  "Position2 lon lat = JArr [JNum lon, JNum lat]"

definition PointCoordinates3 :: "'a \<Rightarrow> 'a \<Rightarrow> 'a \<Rightarrow> 'a json" where
  "PointCoordinates3 lon lat alt = Position3 lon lat alt"

definition PointCoordinates2 :: "'a \<Rightarrow> 'a \<Rightarrow> 'a json" where
  "PointCoordinates2 lon lat = Position2 lon lat"

definition CoordinatesObject :: "Type \<Rightarrow> 'a json \<Rightarrow> 'a json" where
  "CoordinatesObject T coords = JObj [(''type'', JStr (TypeName T)), (''coordinates'', coords)]"

definition Point3 :: "'a \<Rightarrow> 'a \<Rightarrow> 'a \<Rightarrow> 'a json" where
  "Point3 lon lat alt = CoordinatesObject Type_Point (PointCoordinates3 lon lat alt)"

definition Point2 :: "'a \<Rightarrow> 'a \<Rightarrow> 'a json" where
  "Point2 lon lat = CoordinatesObject Type_Point (PointCoordinates2 lon lat)"

section \<open>Callbacks\<close>

text \<open>
  A point callback writes a position through two or three reference parameters:
  \<^verbatim>\<open>void(index..., double& lon, double& lat, double& alt)\<close> or the same without
  \<^verbatim>\<open>alt\<close>. The overload taken is the constructor; the callback is a function of its
  index arguments (\<open>'i\<close>: one index, a pair, or a triple) to the values it writes. So a
  callback here writes all its parameters, throws nothing and answers the same for the
  same index. Counts and indices are \<^verbatim>\<open>size_t\<close> in the header and natural numbers here:
  the header only computes \<open>i + 1\<close> and \<open>size - i - 1\<close> for an index \<open>i\<close> below a size,
  which cannot wrap around.
\<close>

datatype ('i, 'a) callback =
    Cb3 "'i \<Rightarrow> 'a \<times> 'a \<times> 'a"
  | Cb2 "'i \<Rightarrow> 'a \<times> 'a"

text \<open>
  One turn of a point loop: \<^verbatim>\<open>getPoint(i, lon, lat, alt)\<close> and then
  \<^verbatim>\<open>PointCoordinates(lon, lat, alt)\<close>, in the overload of the callback.
\<close>

definition point_at :: "(nat, 'a) callback \<Rightarrow> nat \<Rightarrow> 'a json" where
  "point_at getPoint i =
     (case getPoint of
        Cb3 g \<Rightarrow> (case g i of (lon, lat, alt) \<Rightarrow> PointCoordinates3 lon lat alt)
      | Cb2 g \<Rightarrow> (case g i of (lon, lat) \<Rightarrow> PointCoordinates2 lon lat))"

text \<open>
  The lambdas \<^verbatim>\<open>[&](size_t j, ...) { getPoint(i, j, ...); }\<close> that fix the first index
  of a callback.
\<close>

definition bind_index :: "'i \<Rightarrow> ('i \<times> 'j, 'a) callback \<Rightarrow> ('j, 'a) callback" where
  "bind_index i getPoint =
     (case getPoint of
        Cb3 g \<Rightarrow> Cb3 (\<lambda>j. g (i, j))
      | Cb2 g \<Rightarrow> Cb2 (\<lambda>j. g (i, j)))"

section \<open>MultiPoint, LineString, MultiLineString\<close>

definition MultiPointCoordinates :: "nat \<Rightarrow> (nat, 'a) callback \<Rightarrow> error + 'a json" where
  "MultiPointCoordinates numPoints getPoint =
     for_loop 0 numPoints (\<lambda>i coords. push_back coords (point_at getPoint i)) array_json"

definition MultiPoint :: "nat \<Rightarrow> (nat, 'a) callback \<Rightarrow> error + 'a json" where
  "MultiPoint numPoints getPoint =
     bind_err (MultiPointCoordinates numPoints getPoint)
       (\<lambda>coords. Inr (CoordinatesObject Type_MultiPoint coords))"

definition LineStringCoordinates :: "nat \<Rightarrow> (nat, 'a) callback \<Rightarrow> error + 'a json" where
  "LineStringCoordinates numPoints getPoint =
     (if numPoints \<le> 1
      then Inl (domain_error ''LineString objects must have at least 2 points'')
      else for_loop 0 numPoints (\<lambda>i coords. push_back coords (point_at getPoint i)) array_json)"

definition LineString :: "nat \<Rightarrow> (nat, 'a) callback \<Rightarrow> error + 'a json" where
  "LineString numPoints getPoint =
     bind_err (LineStringCoordinates numPoints getPoint)
       (\<lambda>coords. Inr (CoordinatesObject Type_LineString coords))"

definition MultiLineStringCoordinates ::
  "nat \<Rightarrow> (nat \<Rightarrow> nat) \<Rightarrow> (nat \<times> nat, 'a) callback \<Rightarrow> error + 'a json" where
  "MultiLineStringCoordinates numLines getLineLength getPoint =
     for_loop 0 numLines
       (\<lambda>i coords.
          bind_err (LineStringCoordinates (getLineLength i) (bind_index i getPoint))
            (\<lambda>line. push_back coords line))
       array_json"

definition MultiLineString ::
  "nat \<Rightarrow> (nat \<Rightarrow> nat) \<Rightarrow> (nat \<times> nat, 'a) callback \<Rightarrow> error + 'a json" where
  "MultiLineString numLineStrings getLineLength getPoint =
     bind_err (MultiLineStringCoordinates numLineStrings getLineLength getPoint)
       (\<lambda>coords. Inr (CoordinatesObject Type_MultiLineString coords))"

section \<open>Orientation and linear rings\<close>

text \<open>
  The accumulator of \<^verbatim>\<open>IsCcw\<close> after its loop: the sum of \<open>(x2 - x1) * (y2 + y1)\<close> over
  the elements \<open>i\<close> and \<open>(i + 1) % size\<close>, added from the left starting at 0.
\<close>

definition cwEdgeSum :: "('a::{zero,plus,minus,times}) json \<Rightarrow> error + 'a" where
  "cwEdgeSum coords =
     for_loop 0 (jsize coords)
       (\<lambda>i acc.
          bind_err (at_index coords i) (\<lambda>pt1.
          bind_err (at_index coords ((i + 1) mod jsize coords)) (\<lambda>pt2.
          bind_err (bind_err (at_index pt2 0) get_double) (\<lambda>x2.
          bind_err (bind_err (at_index pt1 0) get_double) (\<lambda>x1.
          bind_err (bind_err (at_index pt2 1) get_double) (\<lambda>y2.
          bind_err (bind_err (at_index pt1 1) get_double) (\<lambda>y1.
          Inr (acc + (x2 - x1) * (y2 + y1)))))))))
       0"

definition IsCcw :: "('a::{zero,plus,minus,times,ord}) json \<Rightarrow> error + bool" where
  "IsCcw coords = bind_err (cwEdgeSum coords) (\<lambda>s. Inr (s < 0))"

text \<open>The reversal loop of \<^verbatim>\<open>LinearRingCoordinates\<close>.\<close>

definition reverse_coords :: "'a json \<Rightarrow> error + 'a json" where
  "reverse_coords coords =
     for_loop 0 (jsize coords div 2)
       (\<lambda>i c. swap_at c i (jsize c - i - 1))
       coords"

definition LinearRingCoordinates ::
  "nat \<Rightarrow> bool \<Rightarrow> (nat, 'a::{zero,plus,minus,times,ord}) callback \<Rightarrow> error + 'a json" where
  "LinearRingCoordinates numPoints ccw getPoint =
     (if numPoints < 3
      then Inl (domain_error ''Linear rings must have at least 3 points'')
      else
        bind_err (LineStringCoordinates numPoints getPoint) (\<lambda>coords.
        bind_err (IsCcw coords) (\<lambda>isCcw.
        let reverse = (isCcw \<and> \<not> ccw) \<or> (\<not> isCcw \<and> ccw) in
        bind_err (if reverse then reverse_coords coords else Inr coords) (\<lambda>coords.
        bind_err (at_index coords 0) (\<lambda>first.
        push_back coords first)))))"

section \<open>Polygon, MultiPolygon\<close>

definition PolygonCoordinates ::
  "nat \<Rightarrow> (nat \<Rightarrow> nat) \<Rightarrow> (nat \<times> nat, 'a::{zero,plus,minus,times,ord}) callback
     \<Rightarrow> error + 'a json" where
  "PolygonCoordinates numRings getRingLength getPoint =
     for_loop 0 numRings
       (\<lambda>i coords.
          bind_err (LinearRingCoordinates (getRingLength i) (i = 0) (bind_index i getPoint))
            (\<lambda>ring. push_back coords ring))
       JNull"

definition Polygon ::
  "nat \<Rightarrow> (nat \<Rightarrow> nat) \<Rightarrow> (nat \<times> nat, 'a::{zero,plus,minus,times,ord}) callback
     \<Rightarrow> error + 'a json" where
  "Polygon numRings getRingLength getPoint =
     bind_err (PolygonCoordinates numRings getRingLength getPoint)
       (\<lambda>coords. Inr (CoordinatesObject Type_Polygon coords))"

definition MultiPolygonCoordinates ::
  "nat \<Rightarrow> (nat \<Rightarrow> nat) \<Rightarrow> (nat \<Rightarrow> nat \<Rightarrow> nat)
     \<Rightarrow> (nat \<times> nat \<times> nat, 'a::{zero,plus,minus,times,ord}) callback \<Rightarrow> error + 'a json" where
  "MultiPolygonCoordinates numPolygons getNumRings getRingLength getPoint =
     for_loop 0 numPolygons
       (\<lambda>i coords.
          bind_err
            (PolygonCoordinates (getNumRings i) (\<lambda>ring. getRingLength i ring)
               (bind_index i getPoint))
            (\<lambda>poly. push_back coords poly))
       JNull"

definition MultiPolygon ::
  "nat \<Rightarrow> (nat \<Rightarrow> nat) \<Rightarrow> (nat \<Rightarrow> nat \<Rightarrow> nat)
     \<Rightarrow> (nat \<times> nat \<times> nat, 'a::{zero,plus,minus,times,ord}) callback \<Rightarrow> error + 'a json" where
  "MultiPolygon numPolygons getNumRings getRingLength getPoint =
     bind_err (MultiPolygonCoordinates numPolygons getNumRings getRingLength getPoint)
       (\<lambda>coords. Inr (CoordinatesObject Type_MultiPolygon coords))"

section \<open>GeometryCollection, Feature, FeatureCollection\<close>

definition GeometryCollection :: "nat \<Rightarrow> (nat \<Rightarrow> 'a json) \<Rightarrow> error + 'a json" where
  "GeometryCollection numGeometries getGeometry =
     bind_err (for_loop 0 numGeometries (\<lambda>i j. push_back j (getGeometry i)) JNull)
       (\<lambda>j. Inr (JObj [(''type'', JStr (TypeName Type_GeometryCollection)),
                       (''geometries'', j)]))"

definition Feature :: "'a json \<Rightarrow> 'a json \<Rightarrow> 'a json" where
  "Feature geometry properties =
     JObj [(''type'', JStr (TypeName Type_Feature)),
           (''geometry'', geometry),
           (''properties'', properties)]"

definition Feature_string :: "string \<Rightarrow> 'a json \<Rightarrow> 'a json \<Rightarrow> error + 'a json" where
  "Feature_string ident geometry properties =
     set_member (Feature geometry properties) ''id'' (JStr ident)"

text \<open>
  The overload for an arithmetic identifier: \<^verbatim>\<open>std::is_arithmetic<T>\<close> holds for
  \<^verbatim>\<open>bool\<close> and for the number types, and the library stores the first as a boolean
  and the others as a number.
\<close>

datatype 'a arithmetic = Arith_bool bool | Arith_num 'a

definition json_of_arithmetic :: "'a arithmetic \<Rightarrow> 'a json" where
  "json_of_arithmetic v = (case v of Arith_bool b \<Rightarrow> JBool b | Arith_num x \<Rightarrow> JNum x)"

definition Feature_arithmetic :: "'a arithmetic \<Rightarrow> 'a json \<Rightarrow> 'a json \<Rightarrow> error + 'a json" where
  "Feature_arithmetic ident geometry properties =
     set_member (Feature geometry properties) ''id'' (json_of_arithmetic ident)"

definition FeatureCollection :: "nat \<Rightarrow> (nat \<Rightarrow> 'a json) \<Rightarrow> error + 'a json" where
  "FeatureCollection numFeatures getFeature =
     bind_err (set_member (JObj [(''type'', JStr (TypeName Type_FeatureCollection))])
                 ''features'' array_json)
       (\<lambda>j. bind_err (for_loop 0 numFeatures (\<lambda>i featuresJ. push_back featuresJ (getFeature i))
                        array_json)
          (\<lambda>featuresJ. set_member j ''features'' featuresJ))"

section \<open>Reading the orientation test\<close>

text \<open>The longitude and latitude a callback writes for index \<open>i\<close>, whatever its overload.\<close>

definition lon_lat :: "(nat, 'a) callback \<Rightarrow> nat \<Rightarrow> 'a \<times> 'a" where
  "lon_lat getPoint i =
     (case getPoint of
        Cb3 g \<Rightarrow> (case g i of (lon, lat, alt) \<Rightarrow> (lon, lat))
      | Cb2 g \<Rightarrow> g i)"

text \<open>
  The specification's sum: \<open>(x2 - x1) * (y2 + y1)\<close> over each pair of consecutive
  points, the last point paired with the first. The terms are added from the left,
  starting at 0, so the definition fixes the order of the additions as well.
\<close>

definition edge_term :: "('a::{minus,plus,times}) \<times> 'a \<Rightarrow> 'a \<times> 'a \<Rightarrow> 'a" where
  "edge_term p1 p2 = (fst p2 - fst p1) * (snd p2 + snd p1)"

definition shoelace_sum :: "(('a::{zero,plus,minus,times}) \<times> 'a) list \<Rightarrow> 'a" where
  "shoelace_sum ps =
     foldl (+) 0 (map (\<lambda>i. edge_term (ps ! i) (ps ! ((i + 1) mod length ps))) [0..<length ps])"

section \<open>Inputs of the unit tests\<close>

text \<open>
  The point data of \<^verbatim>\<open>unit_tests.cpp\<close>, as callbacks over the reals: the square of
  \<^verbatim>\<open>LinearRingCoordinatesTest\<close> (counter-clockwise, with altitudes), the second outer
  ring of the \<^verbatim>\<open>MultiPolygonCoordinates\<close> test (three points on one line), and the
  polygon of \<^verbatim>\<open>PolygonTest\<close> (that square and the first of its two holes), and a
  multi-polygon of that polygon and of the three points on one line.
\<close>

definition test_square :: "(nat, real) callback" where
  "test_square =
     Cb3 (\<lambda>i. [(0, 0, 1 / 2), (3 / 2, 0, 3 / 10), (3 / 2, 3 / 2, 3 / 5), (0, 3 / 2, 9 / 10)] ! i)"

definition test_line :: "(nat, real) callback" where
  "test_line = Cb3 (\<lambda>i. [(1, 2, 3), (4, 5, 6), (7, 8, 9)] ! i)"

definition test_hole :: "(nat, real) callback" where
  "test_hole =
     Cb3 (\<lambda>i. [(1 / 4, 1 / 4, 1 / 2), (35 / 100, 3 / 4, 3 / 5), (1 / 2, 1 / 4, 7 / 10)] ! i)"

definition test_ring_length :: "nat \<Rightarrow> nat" where
  "test_ring_length ring = (if ring = 0 then 4 else 3)"

definition test_polygon :: "(nat \<times> nat, real) callback" where
  "test_polygon =
     Cb3 (\<lambda>(ring, pt).
       if ring = 0
       then [(0, 0, 1 / 2), (3 / 2, 0, 3 / 10), (3 / 2, 3 / 2, 3 / 5), (0, 3 / 2, 9 / 10)] ! pt
       else [(1 / 4, 1 / 4, 1 / 2), (35 / 100, 3 / 4, 3 / 5), (1 / 2, 1 / 4, 7 / 10)] ! pt)"





section \<open>Rounded arithmetic on whole numbers\<close>

text \<open>
  The header computes in \<^verbatim>\<open>double\<close>. For doubles that hold whole numbers, the sum,
  difference and product are the exact whole result rounded to 53 significant bits, a
  tie going to the even neighbour (no overflow arises below \<open>2 ^ 1023\<close>). \<open>excess_bits\<close>
  counts the bits of a magnitude beyond 53, \<open>round53\<close> rounds, and \<open>dbl\<close> is the
  arithmetic on such doubles. It is one instance of the arithmetic the definitions above
  are polymorphic in; its values below \<open>2 ^ 53\<close> in magnitude are exact.
\<close>

function excess_bits :: "nat \<Rightarrow> nat" where
  "excess_bits m = (if m < 2 ^ 53 then 0 else Suc (excess_bits (m div 2)))"
  by pat_completeness auto
termination
  by (relation "measure id") auto

declare excess_bits.simps [simp del]

definition round53 :: "int \<Rightarrow> int" where
  "round53 k =
     (let m = nat \<bar>k\<bar>;
          e = excess_bits m;
          q = m div 2 ^ e;
          r = m mod 2 ^ e;
          q' = (if 2 * r > 2 ^ e \<or> (2 * r = 2 ^ e \<and> odd q) then q + 1 else q)
      in sgn k * int (q' * 2 ^ e))"

datatype dbl = Dbl (int_of: int)

instantiation dbl :: "{zero, plus, minus, times, ord}"
begin

definition zero_dbl :: dbl where
  "zero_dbl = Dbl 0"

definition plus_dbl :: "dbl \<Rightarrow> dbl \<Rightarrow> dbl" where
  "plus_dbl x y = Dbl (round53 (int_of x + int_of y))"

definition minus_dbl :: "dbl \<Rightarrow> dbl \<Rightarrow> dbl" where
  "minus_dbl x y = Dbl (round53 (int_of x - int_of y))"

definition times_dbl :: "dbl \<Rightarrow> dbl \<Rightarrow> dbl" where
  "times_dbl x y = Dbl (round53 (int_of x * int_of y))"

definition less_dbl :: "dbl \<Rightarrow> dbl \<Rightarrow> bool" where
  "less_dbl x y = (int_of x < int_of y)"

definition less_eq_dbl :: "dbl \<Rightarrow> dbl \<Rightarrow> bool" where
  "less_eq_dbl x y = (int_of x \<le> int_of y)"

instance ..

end

text \<open>
  Three points with whole coordinates below \<open>2 ^ 31\<close>, in counter-clockwise order: the
  exact sum of their edge terms is -55, and each edge term exceeds \<open>2 ^ 53\<close>.
\<close>

definition rounded_ring :: "(nat, dbl) callback" where
  "rounded_ring =
     Cb2 (\<lambda>i. [(Dbl 5, Dbl 1), (Dbl 536870920, Dbl 536870921),
                (Dbl 1073741824, Dbl 1073741830)] ! i)"

text \<open>The values a collecting loop holds: null before the first element, an array after.\<close>

definition null_or_array :: "'a json \<Rightarrow> bool" where
  "null_or_array j = (case j of JNull \<Rightarrow> True | JArr xs \<Rightarrow> True | _ \<Rightarrow> False)"

section \<open>Loops that collect\<close>

lemma bind_err_Inr [simp]: "bind_err (Inr v) f = f v"
  by (simp add: bind_err_def)

lemma bind_err_Inl [simp]: "bind_err (Inl e) f = Inl e"
  by (simp add: bind_err_def)

lemma for_loop_done [simp]: "\<not> i < n \<Longrightarrow> for_loop i n body s = Inr s"
  by (simp add: for_loop.simps)

lemma for_loop_step: "i < n \<Longrightarrow> for_loop i n body s = bind_err (body i s) (for_loop (Suc i) n body)"
  by (subst for_loop.simps) (simp add: bind_err_def)

lemma for_loop_collect:
  assumes "\<And>k ys. i \<le> k \<Longrightarrow> k < n \<Longrightarrow> body k (JArr ys) = Inr (JArr (ys @ [G k]))"
  shows "for_loop i n body (JArr xs) = Inr (JArr (xs @ map G [i..<n]))"
  using assms
proof (induction "n - i" arbitrary: i xs)
  case 0
  then show ?case by simp
next
  case (Suc d)
  then have lt: "i < n" by simp
  have step: "body i (JArr xs) = Inr (JArr (xs @ [G i]))"
    using Suc.prems lt by simp
  have "for_loop (Suc i) n body (JArr (xs @ [G i])) = Inr (JArr ((xs @ [G i]) @ map G [Suc i..<n]))"
    using Suc.hyps(2) Suc.prems by (intro Suc.hyps(1)) auto
  then show ?case
    using lt step by (simp add: for_loop_step upt_conv_Cons)
qed

lemma for_loop_collect_null:
  assumes "\<And>k ys. k < n \<Longrightarrow> body k (JArr ys) = Inr (JArr (ys @ [G k]))"
    and "0 < n \<Longrightarrow> body 0 JNull = Inr (JArr [G 0])"
  shows "for_loop 0 n body JNull = Inr (if n = 0 then JNull else JArr (map G [0..<n]))"
proof (cases "n = 0")
  case True
  then show ?thesis by simp
next
  case False
  then have lt: "0 < n" by simp
  have "for_loop (Suc 0) n body (JArr [G 0]) = Inr (JArr ([G 0] @ map G [Suc 0..<n]))"
    using assms(1) by (intro for_loop_collect) auto
  then show ?thesis
    using lt assms(2) by (simp add: for_loop_step upt_conv_Cons)
qed

lemma for_loop_fails:
  assumes "i \<le> k" and "k < n" and "I s"
    and "\<And>t. I t \<Longrightarrow> body k t = Inl e"
    and "\<And>j t. i \<le> j \<Longrightarrow> j < n \<Longrightarrow> I t \<Longrightarrow>
           body j t = Inl e \<or> (\<exists>t'. body j t = Inr t' \<and> I t')"
  shows "for_loop i n body s = Inl e"
  using assms
proof (induction "k - i" arbitrary: i s)
  case 0
  then have "i = k" by simp
  then show ?case using "0.prems" by (simp add: for_loop_step)
next
  case (Suc d)
  then have lt: "i < n" and ik: "Suc i \<le> k" by simp_all
  from Suc.prems(5) [of i s] lt Suc.prems(3)
  consider "body i s = Inl e" | s' where "body i s = Inr s'" and "I s'"
    by auto
  then show ?case
  proof cases
    case 1
    then show ?thesis using lt by (simp add: for_loop_step)
  next
    case 2
    have "for_loop (Suc i) n body s' = Inl e"
      using Suc.hyps(2) ik Suc.prems 2(2) by (intro Suc.hyps(1)) auto
    then show ?thesis using lt 2 by (simp add: for_loop_step)
  qed
qed

lemma for_loop_pure:
  assumes "\<And>k t. i \<le> k \<Longrightarrow> k < n \<Longrightarrow> body k t = Inr (f t k)"
  shows "for_loop i n body s = Inr (foldl f s [i..<n])"
  using assms
proof (induction "n - i" arbitrary: i s)
  case 0
  then show ?case by simp
next
  case (Suc d)
  then have lt: "i < n" by simp
  have "for_loop (Suc i) n body (f s i) = Inr (foldl f (f s i) [Suc i..<n])"
    using Suc.hyps(2) Suc.prems by (intro Suc.hyps(1)) auto
  then show ?case
    using lt Suc.prems [of i s] by (simp add: for_loop_step upt_conv_Cons)
qed

lemma at_index_point0: "at_index (point_at g k) 0 = Inr (JNum (fst (lon_lat g k)))"
  by (simp add: at_index_def point_at_def lon_lat_def PointCoordinates3_def PointCoordinates2_def
      Position3_def Position2_def split: callback.splits prod.splits)

lemma at_index_point1: "at_index (point_at g k) (Suc 0) = Inr (JNum (snd (lon_lat g k)))"
  by (simp add: at_index_def point_at_def lon_lat_def PointCoordinates3_def PointCoordinates2_def
      Position3_def Position2_def split: callback.splits prod.splits)

lemma foldl_plus_map: "foldl (\<lambda>acc i. acc + h i) s xs = foldl (+) s (map h xs)"
  by (induction xs arbitrary: s) auto

lemma cwEdgeSum_points:
  "cwEdgeSum (JArr (map (point_at g) ks)) = Inr (shoelace_sum (map (lon_lat g) ks))"
proof -
  let ?n = "length ks"
  let ?c = "JArr (map (point_at g) ks)"
  let ?h = "\<lambda>i. edge_term (map (lon_lat g) ks ! i) (map (lon_lat g) ks ! ((i + 1) mod ?n))"
  have sz: "jsize ?c = ?n" by (simp add: jsize_def)
  have at: "at_index ?c k = Inr (point_at g (ks ! k))" if "k < ?n" for k
    using that by (simp add: at_index_def)
  have "cwEdgeSum ?c = Inr (foldl (\<lambda>acc i. acc + ?h i) 0 [0..<?n])"
    unfolding cwEdgeSum_def sz
  proof (rule for_loop_pure)
    fix k t assume "k < ?n"
    then have "0 < ?n" by linarith
    then have m: "(k + 1) mod ?n < ?n" by (rule mod_less_divisor)
    show "bind_err (at_index ?c k) (\<lambda>pt1.
          bind_err (at_index ?c ((k + 1) mod ?n)) (\<lambda>pt2.
          bind_err (bind_err (at_index pt2 0) get_double) (\<lambda>x2.
          bind_err (bind_err (at_index pt1 0) get_double) (\<lambda>x1.
          bind_err (bind_err (at_index pt2 1) get_double) (\<lambda>y2.
          bind_err (bind_err (at_index pt1 1) get_double) (\<lambda>y1.
          Inr (t + (x2 - x1) * (y2 + y1)))))))) = Inr (t + ?h k)"
      using \<open>k < ?n\<close> m
      by (simp add: at at_index_point0 at_index_point1 get_double_def edge_term_def)
  qed
  also have "foldl (\<lambda>acc i. acc + ?h i) 0 [0..<?n] = foldl (+) 0 (map ?h [0..<?n])"
    by (rule foldl_plus_map)
  finally show ?thesis by (simp only: shoelace_sum_def length_map)
qed

lemma reverse_loop:
  assumes "i \<le> length xs div 2"
    and "length ys = length xs"
    and "\<And>j. j < length xs \<Longrightarrow>
           ys ! j = (if j < i \<or> length xs - i \<le> j then xs ! (length xs - 1 - j) else xs ! j)"
  shows "for_loop i (length xs div 2) (\<lambda>i c. swap_at c i (jsize c - i - 1)) (JArr ys)
         = Inr (JArr (rev xs))"
  using assms
proof (induction "length xs div 2 - i" arbitrary: i ys)
  case 0
  then have i: "i = length xs div 2" by simp
  have "ys = rev xs"
  proof (rule nth_equalityI)
    show "length ys = length (rev xs)" using "0.prems" by simp
  next
    fix j assume "j < length ys"
    then have j: "j < length xs" using "0.prems" by simp
    have "ys ! j = xs ! (length xs - 1 - j)"
    proof (cases "j < i \<or> length xs - i \<le> j")
      case True
      then show ?thesis using "0.prems"(3) [OF j] by simp
    next
      case False
      then have "j = length xs - 1 - j" using i j by (simp add: not_less) linarith
      then show ?thesis using "0.prems"(3) [OF j] False by simp
    qed
    then show "ys ! j = rev xs ! j" using j by (simp add: rev_nth)
  qed
  then show ?case using i by simp
next
  case (Suc d)
  let ?n = "length xs"
  have lt: "i < ?n div 2" using Suc.hyps(2) by simp
  then have i1: "i < ?n" and i2: "?n - i - 1 < ?n" and ne: "i < ?n - i - 1" by linarith+
  let ?zs = "ys[i := ys ! (?n - i - 1), ?n - i - 1 := ys ! i]"
  have step: "swap_at (JArr ys) i (jsize (JArr ys) - i - 1) = Inr (JArr ?zs)"
    using i1 i2 Suc.prems(2) by (simp add: swap_at_def jsize_def)
  have c1: "\<not> (i < i \<or> ?n - i \<le> i)" using ne by linarith
  have c2: "\<not> (?n - i - 1 < i \<or> ?n - i \<le> ?n - i - 1)" using ne i1 by linarith
  have yi: "ys ! i = xs ! i" using Suc.prems(3) [OF i1] c1 by (simp only: if_False)
  have yk: "ys ! (?n - i - 1) = xs ! (?n - i - 1)"
    using Suc.prems(3) [OF i2] c2 by (simp only: if_False)
  have "for_loop (Suc i) (?n div 2) (\<lambda>i c. swap_at c i (jsize c - i - 1)) (JArr ?zs)
        = Inr (JArr (rev xs))"
  proof (rule Suc.hyps(1))
    show "d = ?n div 2 - Suc i" using Suc.hyps(2) by simp
    show "Suc i \<le> ?n div 2" using lt by simp
    show "length ?zs = ?n" using Suc.prems(2) by simp
  next
    fix j assume j: "j < ?n"
    consider "j = i" | "j = ?n - i - 1" | "j \<noteq> i" "j \<noteq> ?n - i - 1" by blast
    then show "?zs ! j = (if j < Suc i \<or> ?n - Suc i \<le> j then xs ! (?n - 1 - j) else xs ! j)"
    proof cases
      case 1
      then show ?thesis using i1 i2 ne Suc.prems(2) yk by (simp add: nth_list_update)
    next
      case 2
      have "?n - 1 - (?n - i - 1) = i" using i1 by simp
      then show ?thesis using 2 i1 i2 ne Suc.prems(2) yi by (simp add: nth_list_update)
    next
      case 3
      have "(j < Suc i \<or> ?n - Suc i \<le> j) = (j < i \<or> ?n - i \<le> j)"
        using 3 by auto
      then show ?thesis using 3 Suc.prems(3) [OF j] by (simp add: nth_list_update)
    qed
  qed
  then show ?case using lt step by (simp add: for_loop_step)
qed

lemma reverse_coords_array: "reverse_coords (JArr xs) = Inr (JArr (rev xs))"
  unfolding reverse_coords_def
  using reverse_loop [of 0 xs xs] by (simp add: jsize_def)

lemma point_loop:
  "for_loop 0 n (\<lambda>i coords. push_back coords (point_at g i)) array_json
   = Inr (JArr (map (point_at g) [0..<n]))"
  using for_loop_collect [of 0 n "\<lambda>i coords. push_back coords (point_at g i)" "point_at g" "[]"]
  by (simp add: array_json_def push_back_def)

lemma MultiPointCoordinates_eq:
  "MultiPointCoordinates n g = Inr (JArr (map (point_at g) [0..<n]))"
  by (simp add: MultiPointCoordinates_def point_loop)

lemma LineStringCoordinates_eq:
  "LineStringCoordinates n g =
     (if n \<le> 1 then Inl (domain_error ''LineString objects must have at least 2 points'')
      else Inr (JArr (map (point_at g) [0..<n])))"
  by (simp add: LineStringCoordinates_def point_loop)

lemma IsCcw_points:
  "IsCcw (JArr (map (point_at g) ks)) = Inr (shoelace_sum (map (lon_lat g) ks) < 0)"
  by (simp add: IsCcw_def cwEdgeSum_points)

lemma LinearRingCoordinates_eq:
  "LinearRingCoordinates n ccw g =
     (if n < 3 then Inl (domain_error ''Linear rings must have at least 3 points'')
      else Inr (JArr (if (shoelace_sum (map (lon_lat g) [0..<n]) < 0) = ccw
                      then map (point_at g) [0..<n] @ [point_at g 0]
                      else rev (map (point_at g) [0..<n]) @ [point_at g (n - 1)])))"
proof (cases "n < 3")
  case True
  then show ?thesis by (simp add: LinearRingCoordinates_def)
next
  case False
  let ?pts = "map (point_at g) [0..<n]"
  have n: "0 < n" "\<not> n \<le> 1" using False by simp_all
  have hd0: "?pts ! 0 = point_at g 0" using n by simp
  have rev0: "rev ?pts ! 0 = point_at g (n - 1)" using n by (simp add: rev_nth)
  show ?thesis
    using False n hd0 rev0
    by (simp add: LinearRingCoordinates_def LineStringCoordinates_eq IsCcw_points Let_def
        reverse_coords_array at_index_def push_back_def del: upt_Suc)
qed

lemma push_back_collects:
  "null_or_array s \<Longrightarrow> \<exists>t. push_back s v = Inr t \<and> null_or_array t"
  by (cases s) (simp_all add: push_back_def null_or_array_def)

lemma MultiLineStringCoordinates_ok:
  assumes "\<And>i. i < m \<Longrightarrow> 2 \<le> len i"
  shows "MultiLineStringCoordinates m len g
         = Inr (JArr (map (\<lambda>i. JArr (map (point_at (bind_index i g)) [0..<len i])) [0..<m]))"
  unfolding MultiLineStringCoordinates_def array_json_def
proof (rule for_loop_collect [where xs = "[]", simplified])
  fix k ys assume "k < m"
  then have "\<not> len k \<le> 1" using assms [of k] by simp
  then show "bind_err (LineStringCoordinates (len k) (bind_index k g)) (push_back (JArr ys))
        = Inr (JArr (ys @ [JArr (map (point_at (bind_index k g)) [0..<len k])]))"
    by (simp add: LineStringCoordinates_eq push_back_def)
qed

lemma MultiLineStringCoordinates_fail:
  assumes "k < m" and "len k \<le> 1"
  shows "MultiLineStringCoordinates m len g
         = Inl (domain_error ''LineString objects must have at least 2 points'')"
  unfolding MultiLineStringCoordinates_def array_json_def
proof (rule for_loop_fails [where k = k and I = null_or_array])
  show "0 \<le> k" by simp
  show "k < m" by fact
  show "null_or_array (JArr [])" by (simp add: null_or_array_def)
next
  fix s :: "'a json"
  show "bind_err (LineStringCoordinates (len k) (bind_index k g)) (push_back s)
        = Inl (domain_error ''LineString objects must have at least 2 points'')"
    using assms(2) by (simp add: LineStringCoordinates_eq)
next
  fix j and s :: "'a json" assume "null_or_array s"
  then show "bind_err (LineStringCoordinates (len j) (bind_index j g)) (push_back s) =
          Inl (domain_error ''LineString objects must have at least 2 points'') \<or>
        (\<exists>s'. bind_err (LineStringCoordinates (len j) (bind_index j g)) (push_back s) = Inr s'
            \<and> null_or_array s')"
    by (simp add: LineStringCoordinates_eq push_back_collects)
qed

lemma LinearRingCoordinates_cases:
  "LinearRingCoordinates n ccw g = Inl (domain_error ''Linear rings must have at least 3 points'')
   \<or> (\<exists>xs. LinearRingCoordinates n ccw g = Inr (JArr xs))"
  by (simp add: LinearRingCoordinates_eq)

lemma PolygonCoordinates_collect:
  assumes "\<And>i. i < n \<Longrightarrow> LinearRingCoordinates (len i) (i = 0) (bind_index i g) = Inr (R i)"
  shows "PolygonCoordinates n len g = Inr (if n = 0 then JNull else JArr (map R [0..<n]))"
  unfolding PolygonCoordinates_def
proof (rule for_loop_collect_null)
  fix k ys assume "k < n"
  then show "bind_err (LinearRingCoordinates (len k) (k = 0) (bind_index k g))
               (push_back (JArr ys)) = Inr (JArr (ys @ [R k]))"
    using assms [of k] by (simp add: push_back_def)
next
  assume "0 < n"
  then show "bind_err (LinearRingCoordinates (len 0) (0 = 0) (bind_index 0 g))
               (push_back JNull) = Inr (JArr [R 0])"
    using assms [of 0] by (simp add: push_back_def)
qed

lemma PolygonCoordinates_fail:
  assumes "k < n" and "len k < 3"
  shows "PolygonCoordinates n len g
         = Inl (domain_error ''Linear rings must have at least 3 points'')"
  unfolding PolygonCoordinates_def
proof (rule for_loop_fails [where k = k and I = null_or_array])
  show "0 \<le> k" by simp
  show "k < n" by fact
  show "null_or_array JNull" by (simp add: null_or_array_def)
next
  fix s :: "'a json"
  show "bind_err (LinearRingCoordinates (len k) (k = 0) (bind_index k g)) (push_back s)
        = Inl (domain_error ''Linear rings must have at least 3 points'')"
    using assms(2) by (simp add: LinearRingCoordinates_eq)
next
  fix j and s :: "'a json" assume "null_or_array s"
  then show "bind_err (LinearRingCoordinates (len j) (j = 0) (bind_index j g)) (push_back s) =
          Inl (domain_error ''Linear rings must have at least 3 points'') \<or>
        (\<exists>s'. bind_err (LinearRingCoordinates (len j) (j = 0) (bind_index j g)) (push_back s)
               = Inr s' \<and> null_or_array s')"
    using LinearRingCoordinates_cases [of "len j" "j = 0" "bind_index j g"]
    by (auto simp: push_back_collects)
qed

lemma PolygonCoordinates_cases:
  "PolygonCoordinates n len g = Inl (domain_error ''Linear rings must have at least 3 points'')
   \<or> (\<exists>v. PolygonCoordinates n len g = Inr v)"
proof (cases "\<exists>k<n. len k < 3")
  case True
  then show ?thesis using PolygonCoordinates_fail by blast
next
  case False
  then have "\<not> len i < 3" if "i < n" for i
    using that by blast
  then have "\<And>i. i < n \<Longrightarrow> \<exists>r. LinearRingCoordinates (len i) (i = 0) (bind_index i g) = Inr r"
    by (simp add: LinearRingCoordinates_eq)
  then obtain R where "\<And>i. i < n \<Longrightarrow>
      LinearRingCoordinates (len i) (i = 0) (bind_index i g) = Inr (R i)"
    by metis
  then show ?thesis using PolygonCoordinates_collect by blast
qed


lemma MultiPolygonCoordinates_fail:
  assumes "p < N" and "r < cnt p" and "len p r < 3"
  shows "MultiPolygonCoordinates N cnt len g
         = Inl (domain_error ''Linear rings must have at least 3 points'')"
  unfolding MultiPolygonCoordinates_def
proof (rule for_loop_fails [where k = p and I = null_or_array])
  show "0 \<le> p" by simp
  show "p < N" by fact
  show "null_or_array JNull" by (simp add: null_or_array_def)
next
  fix s :: "'a json"
  show "bind_err (PolygonCoordinates (cnt p) (\<lambda>ring. len p ring) (bind_index p g)) (push_back s)
        = Inl (domain_error ''Linear rings must have at least 3 points'')"
    using assms(2,3) by (simp add: PolygonCoordinates_fail)
next
  fix j and s :: "'a json" assume "null_or_array s"
  then show "bind_err (PolygonCoordinates (cnt j) (\<lambda>ring. len j ring) (bind_index j g))
           (push_back s) =
          Inl (domain_error ''Linear rings must have at least 3 points'') \<or>
        (\<exists>s'. bind_err (PolygonCoordinates (cnt j) (\<lambda>ring. len j ring) (bind_index j g))
                 (push_back s) = Inr s' \<and> null_or_array s')"
    using PolygonCoordinates_cases [of "cnt j" "len j" "bind_index j g"]
    by (auto simp: push_back_collects)
qed

lemma foldl_plus_sum_list: "foldl (+) a xs = (a::'a::comm_monoid_add) + sum_list xs"
  by (induction xs arbitrary: a) (simp_all add: add.assoc)

lemma shoelace_sum_eq_sum:
  "shoelace_sum ps =
     (\<Sum>i<length ps. edge_term (ps ! i) (ps ! ((i + 1) mod length ps))::'a::comm_ring)"
  by (simp add: shoelace_sum_def foldl_plus_sum_list interv_sum_list_conv_sum_set_nat
      atLeast0LessThan del: One_nat_def)

lemma edge_term_swap: "edge_term q p = - edge_term p (q::('a::comm_ring) \<times> 'a)"
  by (simp add: edge_term_def algebra_simps)

lemma shoelace_sum_rev: "shoelace_sum (rev ps) = - shoelace_sum (ps::(('a::comm_ring) \<times> 'a) list)"
proof -
  let ?n = "length ps"
  let ?h = "\<lambda>i. edge_term (ps ! i) (ps ! ((i + 1) mod ?n))"
  let ?h' = "\<lambda>i. edge_term (rev ps ! i) (rev ps ! ((i + 1) mod ?n))"
  let ?j = "\<lambda>i. if i = ?n - 1 then ?n - 1 else ?n - 2 - i"
  have neg: "?h' i = - ?h (?j i)" if "i < ?n" for i
  proof (cases "i = ?n - 1")
    case True
    then have "i + 1 = ?n" using that by linarith
    then have m: "(i + 1) mod ?n = 0" by simp
    have "rev ps ! i = ps ! 0" using True that by (simp add: rev_nth)
    moreover have "0 < ?n" using that by linarith
    then have "rev ps ! 0 = ps ! (?n - 1)" using rev_nth [of 0 ps] by simp
    ultimately show ?thesis using True m by (simp add: edge_term_swap [of "ps ! 0"])
  next
    case False
    then have lt: "i + 1 < ?n" using that by linarith
    then have m: "(i + 1) mod ?n = i + 1" by simp
    have m': "(?n - 2 - i + 1) mod ?n = ?n - 1 - i" using lt by simp
    have a: "rev ps ! i = ps ! (?n - 1 - i)" using that by (simp add: rev_nth)
    have b: "rev ps ! (i + 1) = ps ! (?n - 2 - i)"
    proof -
      have "?n - Suc (i + 1) = ?n - 2 - i" by simp
      then show ?thesis using lt rev_nth [of "i + 1" ps] by simp
    qed
    show ?thesis
      using False
      by (simp only: m m' a b if_False edge_term_swap [of "ps ! (?n - 1 - i)"])
  qed
  have "(\<Sum>i<?n. ?h' i) = (\<Sum>i<?n. - ?h (?j i))"
    by (rule sum.cong) (use neg in auto)
  also have "\<dots> = - (\<Sum>i<?n. ?h (?j i))"
    by (simp add: sum_negf)
  also have "(\<Sum>i<?n. ?h (?j i)) = (\<Sum>i<?n. ?h i)"
    by (rule sum.reindex_bij_witness [where i = ?j and j = ?j]) auto
  finally show ?thesis
    by (simp add: shoelace_sum_eq_sum del: One_nat_def)
qed

section \<open>Evaluating on concrete inputs\<close>

lemmas position_defs = point_at_def lon_lat_def PointCoordinates3_def PointCoordinates2_def
  Position3_def Position2_def

lemma upt_small: "[0..<2] = [0, 1]" "[0..<3] = [0, 1, 2]" "[0..<4] = [0, 1, 2, 3]"
  by (simp_all add: upt_conv_Cons)

section \<open>Evaluating the rounded arithmetic\<close>

lemma excess_bits_small: "m < 2 ^ 53 \<Longrightarrow> excess_bits m = 0"
  by (simp add: excess_bits.simps)

lemma round53_small: "\<bar>k\<bar> < 2 ^ 53 \<Longrightarrow> round53 k = k"
proof -
  assume k: "\<bar>k\<bar> < 2 ^ 53"
  then have "nat \<bar>k\<bar> < 2 ^ 53" by (simp add: nat_less_iff)
  then have e: "excess_bits (nat \<bar>k\<bar>) = 0" by (rule excess_bits_small)
  have "sgn k * \<bar>k\<bar> = k" by (simp add: mult_sgn_abs)
  then show ?thesis by (simp add: round53_def e Let_def)
qed

lemma round53_minus: "round53 (- k) = - round53 k"
  by (simp add: round53_def Let_def)

lemma excess_bits_values:
  "excess_bits 9007199254740993 = 1"
  "excess_bits 9007199254740995 = 1"
  "excess_bits 288230383131033630 = 6"
  "excess_bits 864691123623296904 = 7"
  "excess_bits 1152921506754330589 = 8"
  "excess_bits 1152921506754330496 = 8"
  "excess_bits 288230383131033600 = 6"
  "excess_bits 864691123623296896 = 7"
  by (simp_all add: excess_bits.simps)

text \<open>Ties go to the even neighbour: \<open>2 ^ 53 + 1\<close> rounds down, \<open>2 ^ 53 + 3\<close> rounds up.\<close>

lemma round53_ties:
  "round53 9007199254740993 = 9007199254740992"
  "round53 9007199254740995 = 9007199254740996"
  by (simp_all add: round53_def excess_bits_values Let_def)

lemma round53_values:
  "round53 288230383131033630 = 288230383131033600"
  "round53 864691123623296904 = 864691123623296896"
  "round53 1152921506754330589 = 1152921506754330624"
  "round53 1152921506754330496 = 1152921506754330624"
  "round53 288230383131033600 = 288230383131033600"
  "round53 864691123623296896 = 864691123623296896"
  by (simp_all add: round53_def excess_bits_values Let_def)

lemmas dbl_defs = plus_dbl_def minus_dbl_def times_dbl_def zero_dbl_def less_dbl_def

section \<open>The shape of a linear ring\<close>

lemma LinearRingCoordinates_shape:
  assumes "3 \<le> n"
  shows "\<exists>pts b b' out.
     LineStringCoordinates n g = Inr (JArr pts) \<and> length pts = n
     \<and> IsCcw (JArr pts) = Inr b \<and> IsCcw (JArr (rev pts)) = Inr b'
     \<and> out = (if b = ccw then pts else rev pts)
     \<and> LinearRingCoordinates n ccw g = Inr (JArr (out @ [hd out]))
     \<and> IsCcw (JArr out) = Inr (if b = ccw then b else b')"
proof -
  let ?pts = "map (point_at g) [0..<n]"
  let ?b = "shoelace_sum (map (lon_lat g) [0..<n]) < 0"
  let ?b' = "shoelace_sum (map (lon_lat g) (rev [0..<n])) < 0"
  let ?out = "if ?b = ccw then ?pts else rev ?pts"
  have ne: "[0..<n] \<noteq> []" using assms by simp
  have h1: "hd ?pts = point_at g 0" using assms by (simp add: hd_map upt_conv_Cons)
  have h2: "hd (rev ?pts) = point_at g (n - 1)"
  proof -
    have "hd (rev ?pts) = last ?pts" using ne by (simp add: hd_rev)
    also have "\<dots> = point_at g (last [0..<n])" using ne by (simp add: last_map)
    also have "last [0..<n] = n - 1" using assms by simp
    finally show ?thesis .
  qed
  have revpts: "rev ?pts = map (point_at g) (rev [0..<n])" by (simp add: rev_map)
  have line: "LineStringCoordinates n g = Inr (JArr ?pts)"
    using assms by (simp add: LineStringCoordinates_eq)
  have b: "IsCcw (JArr ?pts) = Inr ?b" by (rule IsCcw_points)
  have b': "IsCcw (JArr (rev ?pts)) = Inr ?b'"
    unfolding revpts by (rule IsCcw_points)
  have ring: "LinearRingCoordinates n ccw g = Inr (JArr (?out @ [hd ?out]))"
    using assms h1 h2 by (simp add: LinearRingCoordinates_eq)
  have out: "IsCcw (JArr ?out) = Inr (if ?b = ccw then ?b else ?b')"
  proof (cases "?b = ccw")
    case True
    then show ?thesis using b by simp
  next
    case False
    then show ?thesis using b' by simp
  qed
  have "length ?pts = n" by simp
  with line b b' ring out show ?thesis by blast
qed

section \<open>Orientation in exact arithmetic\<close>

lemma exact_ring_orientation:
  fixes g :: "(nat, 'a::linordered_idom) callback"
  assumes "3 \<le> n"
  shows
  "\<exists>pts ring s s'.
     LineStringCoordinates n g = Inr (JArr pts) \<and> cwEdgeSum (JArr pts) = Inr s
     \<and> LinearRingCoordinates n ccw g = Inr (JArr ring)
     \<and> length ring = n + 1 \<and> hd ring = last ring \<and> ring ! 0 = ring ! n
     \<and> cwEdgeSum (JArr (take n ring)) = Inr s'
     \<and> IsCcw (JArr (take n ring)) = Inr (s' < 0)
     \<and> (s \<noteq> 0 \<longrightarrow> (if ccw then s' < 0 else 0 < s'))
     \<and> (s = 0 \<longrightarrow> s' = 0)"
proof -
  let ?ks = "[0..<n]"
  let ?pts = "map (point_at g) ?ks"
  let ?S = "shoelace_sum (map (lon_lat g) ?ks)"
  have line: "LineStringCoordinates n g = Inr (JArr ?pts)"
    using assms by (simp add: LineStringCoordinates_eq)
  have sum: "cwEdgeSum (JArr ?pts) = Inr ?S" by (rule cwEdgeSum_points)
  have len: "length ?pts = n" by simp
  have first: "?pts ! 0 = point_at g 0" using assms by simp
  have revpts: "rev ?pts = map (point_at g) (rev ?ks)" by (simp add: rev_map)
  have revsum: "cwEdgeSum (JArr (rev ?pts)) = Inr (- ?S)"
  proof -
    have "cwEdgeSum (JArr (map (point_at g) (rev ?ks)))
          = Inr (shoelace_sum (map (lon_lat g) (rev ?ks)))"
      by (rule cwEdgeSum_points)
    moreover have "map (lon_lat g) (rev ?ks) = rev (map (lon_lat g) ?ks)"
      by (simp add: rev_map)
    ultimately show ?thesis
      by (simp only: revpts shoelace_sum_rev)
  qed
  have revfirst: "rev ?pts ! 0 = point_at g (n - 1)"
    using assms by (simp add: rev_nth)
  have hdrev: "hd (rev ?pts) = point_at g (n - 1)"
    using assms revfirst by (simp add: hd_conv_nth)
  have hdpts: "hd ?pts = point_at g 0"
    using assms first by (simp add: hd_conv_nth)
  show ?thesis
  proof (cases "(?S < 0) = ccw")
    case True
    let ?ring = "?pts @ [point_at g 0]"
    have ring: "LinearRingCoordinates n ccw g = Inr (JArr ?ring)"
      using assms True by (simp add: LinearRingCoordinates_eq)
    have tk: "take n ?ring = ?pts" by simp
    have "length ?ring = n + 1" by simp
    moreover have "hd ?ring = last ?ring" using assms hdpts by simp
    moreover have "?ring ! 0 = ?ring ! n" using assms first by (simp add: nth_append)
    moreover have "cwEdgeSum (JArr (take n ?ring)) = Inr ?S" unfolding tk by (rule sum)
    moreover have "IsCcw (JArr (take n ?ring)) = Inr (?S < 0)"
      unfolding tk by (rule IsCcw_points)
    moreover have "?S \<noteq> 0 \<longrightarrow> (if ccw then ?S < 0 else 0 < ?S)" using True by auto
    ultimately show ?thesis using line sum ring by blast
  next
    case False
    let ?ring = "rev ?pts @ [point_at g (n - 1)]"
    have ring: "LinearRingCoordinates n ccw g = Inr (JArr ?ring)"
      using assms False by (simp add: LinearRingCoordinates_eq)
    have tk: "take n ?ring = rev ?pts" by simp
    have "length ?ring = n + 1" by simp
    moreover have "hd ?ring = last ?ring" using assms hdrev by simp
    moreover have "?ring ! 0 = ?ring ! n"
      using assms revfirst by (simp add: nth_append)
    moreover have "cwEdgeSum (JArr (take n ?ring)) = Inr (- ?S)" unfolding tk by (rule revsum)
    moreover have "IsCcw (JArr (take n ?ring)) = Inr (- ?S < 0)"
      unfolding tk IsCcw_def by (simp only: revsum bind_err_Inr)
    moreover have "?S \<noteq> 0 \<longrightarrow> (if ccw then - ?S < 0 else 0 < - ?S)" using False by auto
    moreover have "?S = 0 \<longrightarrow> - ?S = 0" by simp
    ultimately show ?thesis using line sum ring by blast
  qed
qed

section \<open>The claims\<close>

text \<open>
  C8. On the sequence (0,0),(1,0),(1,1),(0,1) the accumulated sum is negative (it is -2)
  and \<^verbatim>\<open>IsCcw\<close> answers true, counter-clockwise; on (0,0),(0,1),(1,1),(1,0) the sum is
  positive (it is 2) and \<^verbatim>\<open>IsCcw\<close> answers false. The inputs are those of \<^verbatim>\<open>IsCcwTest\<close>.
\<close>

theorem IsCcw_unit_squares:
  "cwEdgeSum (JArr [Position2 0 0, Position2 1 0, Position2 1 1, Position2 0 (1::real)]) = Inr (- 2)
   \<and> IsCcw (JArr [Position2 0 0, Position2 1 0, Position2 1 1, Position2 0 (1::real)]) = Inr True
   \<and> cwEdgeSum (JArr [Position2 0 0, Position2 0 1, Position2 1 1, Position2 1 (0::real)]) = Inr 2
   \<and> IsCcw (JArr [Position2 0 0, Position2 0 1, Position2 1 1, Position2 1 (0::real)]) = Inr False"
  by (simp add: IsCcw_def cwEdgeSum_def jsize_def for_loop.simps at_index_def get_double_def
      Position2_def)

text \<open>
  C3. Whatever the callback (of either overload) and the orientation asked for,
  \<^verbatim>\<open>LinearRingCoordinates\<close> throws its \<^verbatim>\<open>std::domain_error\<close> exactly when the number
  of points is below 3: it throws nothing else, and from 3 points on it returns a value.
  The exception is the result of the call itself.
\<close>

theorem LinearRingCoordinates_throws_iff:
  "(LinearRingCoordinates n ccw g
      = Inl (domain_error ''Linear rings must have at least 3 points'')) = (n < 3)
   \<and> (\<exists>e. LinearRingCoordinates n ccw g = Inl e) = (n < 3)
   \<and> (\<exists>ring. LinearRingCoordinates n ccw g = Inr ring) = (3 \<le> n)"
  by (auto simp: LinearRingCoordinates_eq)

text \<open>
  C10. \<^verbatim>\<open>PolygonCoordinates\<close> with no ring and \<^verbatim>\<open>MultiPolygonCoordinates\<close> with no
  polygon return without an exception, and the value is null, not the empty array: the
  objects \<^verbatim>\<open>Polygon\<close> and \<^verbatim>\<open>MultiPolygon\<close> carry null coordinates. A MultiPoint
  build always returns an array, empty for no point, and a LineString build that
  returns, returns an array.
\<close>

theorem empty_Polygon_has_null_coordinates:
  "PolygonCoordinates 0 getRingLength getPoint = Inr JNull
   \<and> Polygon 0 getRingLength getPoint = Inr (CoordinatesObject Type_Polygon JNull)
   \<and> MultiPolygonCoordinates 0 getNumRings getRingLength' getPoint' = Inr JNull
   \<and> MultiPolygon 0 getNumRings getRingLength' getPoint'
       = Inr (CoordinatesObject Type_MultiPolygon JNull)
   \<and> JNull \<noteq> (array_json :: 'a json)
   \<and> MultiPointCoordinates 0 g = Inr (array_json :: 'a json)
   \<and> (\<exists>pts. MultiPointCoordinates n g = Inr (JArr pts))
   \<and> (LineStringCoordinates n g
         = Inl (domain_error ''LineString objects must have at least 2 points'')
        \<or> (\<exists>pts. LineStringCoordinates n g = Inr (JArr pts)))"
  by (simp add: PolygonCoordinates_def Polygon_def MultiPolygonCoordinates_def MultiPolygon_def
      MultiPointCoordinates_eq LineStringCoordinates_eq array_json_def)

text \<open>
  C9. A Feature built without an identifier has no member \<^verbatim>\<open>id\<close>. Built with a string
  or with an arithmetic identifier, it has the member \<^verbatim>\<open>id\<close> holding that value (the
  string itself, the number itself, or the boolean itself), and its members
  \<^verbatim>\<open>type\<close>, \<^verbatim>\<open>geometry\<close> and \<^verbatim>\<open>properties\<close> are those of the Feature without
  identifier: the new object is the old one with \<^verbatim>\<open>id\<close> added.
\<close>

theorem Feature_id_only_adds_id:
  "find_member (Feature geometry properties) ''id'' = None
   \<and> (\<exists>kvs j j'.
        Feature geometry properties = JObj kvs
        \<and> Feature_string s geometry properties = Inr j
        \<and> j = JObj (kvs @ [(''id'', JStr s)])
        \<and> find_member j ''id'' = Some (JStr s)
        \<and> find_member j ''type'' = find_member (Feature geometry properties) ''type''
        \<and> find_member j ''geometry'' = find_member (Feature geometry properties) ''geometry''
        \<and> find_member j ''properties'' = find_member (Feature geometry properties) ''properties''
        \<and> Feature_arithmetic a geometry properties = Inr j'
        \<and> j' = JObj (kvs @ [(''id'', json_of_arithmetic a)])
        \<and> find_member j' ''id'' = Some (json_of_arithmetic a)
        \<and> find_member j' ''type'' = find_member (Feature geometry properties) ''type''
        \<and> find_member j' ''geometry'' = find_member (Feature geometry properties) ''geometry''
        \<and> find_member j' ''properties''
            = find_member (Feature geometry properties) ''properties'')
   \<and> find_member (Feature geometry properties) ''type'' = Some (JStr ''Feature'')
   \<and> find_member (Feature geometry properties) ''geometry'' = Some geometry
   \<and> find_member (Feature geometry properties) ''properties'' = Some properties
   \<and> Feature_string s geometry properties
       = Inr (JObj [(''type'', JStr ''Feature''), (''geometry'', geometry),
                    (''properties'', properties), (''id'', JStr s)])
   \<and> Feature_arithmetic (Arith_num x) geometry properties
       = Inr (JObj [(''type'', JStr ''Feature''), (''geometry'', geometry),
                    (''properties'', properties), (''id'', JNum x)])
   \<and> Feature_arithmetic (Arith_bool t) geometry properties
       = Inr (JObj [(''type'', JStr ''Feature''), (''geometry'', geometry),
                    (''properties'', properties), (''id'', JBool t)])
   \<and> (\<exists>jn. Feature_arithmetic (Arith_num x) geometry properties = Inr jn
         \<and> find_member jn ''id'' = Some (JNum x))
   \<and> (\<exists>jb. Feature_arithmetic (Arith_bool t) geometry properties = Inr jb
         \<and> find_member jb ''id'' = Some (JBool t))"
  by (simp add: Feature_def Feature_string_def Feature_arithmetic_def set_member_def
      find_member_def json_of_arithmetic_def)

text \<open>
  C7, evaluated: \<^verbatim>\<open>GeometryCollection\<close> with no geometry returns without an exception,
  and the member \<^verbatim>\<open>geometries\<close> of the object is null: the loop never runs, so the
  default-constructed value is never turned into an array. \<^verbatim>\<open>FeatureCollection\<close>, which
  assigns \<^verbatim>\<open>array()\<close> before its loop, returns the empty array for no feature.
\<close>

theorem GeometryCollection_without_geometries:
  "GeometryCollection 0 getGeometry
     = Inr (JObj [(''type'', JStr ''GeometryCollection''), (''geometries'', JNull)])
   \<and> FeatureCollection 0 getFeature
     = Inr (JObj [(''type'', JStr ''FeatureCollection''), (''features'', JArr [])])"
  by (simp add: GeometryCollection_def FeatureCollection_def set_member_def array_json_def)

text \<open>
  C4. \<^verbatim>\<open>LineStringCoordinates\<close> throws its \<^verbatim>\<open>std::domain_error\<close> for 0 and for 1 point
  and returns the array of its points from 2 points on. \<^verbatim>\<open>MultiLineStringCoordinates\<close>
  builds each line with it: it throws that exception as soon as one line has fewer than
  2 points, and returns one array per line otherwise. \<^verbatim>\<open>MultiPointCoordinates\<close> has no
  minimum: it returns the array of its points for every count, the empty array for 0.
\<close>

theorem LineString_needs_two_points:
  "LineStringCoordinates 0 g
     = Inl (domain_error ''LineString objects must have at least 2 points'')
   \<and> LineStringCoordinates 1 g
     = Inl (domain_error ''LineString objects must have at least 2 points'')
   \<and> (2 \<le> n \<longrightarrow>
        (\<exists>pts. LineStringCoordinates n g = Inr (JArr pts) \<and> length pts = n))
   \<and> ((\<exists>k<m. getLineLength k \<le> 1) \<longrightarrow>
        MultiLineStringCoordinates m getLineLength getPoint
          = Inl (domain_error ''LineString objects must have at least 2 points''))
   \<and> ((\<forall>k<m'. 2 \<le> getLineLength' k) \<longrightarrow>
        (\<exists>lines. MultiLineStringCoordinates m' getLineLength' getPoint = Inr (JArr lines)
           \<and> length lines = m'
           \<and> (\<forall>k<m'. LineStringCoordinates (getLineLength' k) (bind_index k getPoint)
                          = Inr (lines ! k))))
   \<and> MultiPointCoordinates 0 g = Inr (JArr [])
   \<and> (\<exists>pts. MultiPointCoordinates n g = Inr (JArr pts) \<and> length pts = n)"
proof -
  have fails: "MultiLineStringCoordinates m getLineLength getPoint
          = Inl (domain_error ''LineString objects must have at least 2 points'')"
    if "\<exists>k<m. getLineLength k \<le> 1"
    using that MultiLineStringCoordinates_fail by blast
  have ok: "\<exists>lines. MultiLineStringCoordinates m' getLineLength' getPoint = Inr (JArr lines)
           \<and> length lines = m'
           \<and> (\<forall>k<m'. LineStringCoordinates (getLineLength' k) (bind_index k getPoint)
                          = Inr (lines ! k))"
    if all: "\<forall>k<m'. 2 \<le> getLineLength' k"
  proof -
    have "\<not> getLineLength' k \<le> 1" if "k < m'" for k
      using all that by fastforce
    then show ?thesis
      using all by (simp add: MultiLineStringCoordinates_ok LineStringCoordinates_eq)
  qed
  show ?thesis
    using fails ok by (simp add: LineStringCoordinates_eq MultiPointCoordinates_eq)
qed


theorem LineString_needs_two_points_witness:
  "(\<exists>pts. LineStringCoordinates 2 test_square = Inr (JArr pts) \<and> length pts = 2)
   \<and> MultiLineStringCoordinates 2 (\<lambda>k. k) test_polygon
       = Inl (domain_error ''LineString objects must have at least 2 points'')
   \<and> (\<exists>lines. MultiLineStringCoordinates 2 test_ring_length test_polygon = Inr (JArr lines)
         \<and> length lines = 2
         \<and> (\<forall>k<2. LineStringCoordinates (test_ring_length k) (bind_index k test_polygon)
                      = Inr (lines ! k)))"
proof -
  have short: "\<exists>k<2. (\<lambda>k. k) k \<le> (1::nat)" by (rule exI [of _ 0]) simp
  have long: "\<forall>k<2. 2 \<le> test_ring_length k" by (simp add: test_ring_length_def)
  show ?thesis
    using LineString_needs_two_points [where n = 2 and g = test_square and m = 2
        and getLineLength = "\<lambda>k. k" and getPoint = test_polygon
        and m' = 2 and getLineLength' = test_ring_length] short long
    by simp
qed


text \<open>
  C5. For 3 points or more, \<^verbatim>\<open>LinearRingCoordinates\<close> returns the open sequence that
  \<^verbatim>\<open>LineStringCoordinates\<close> builds, in its own order when \<^verbatim>\<open>IsCcw\<close> of that sequence
  equals the orientation asked for, and reversed end to end when it differs, followed in
  both cases by a copy of the first element of the sequence so ordered.
\<close>

theorem LinearRingCoordinates_reverses_iff_differs:
  "3 \<le> n \<Longrightarrow>
   \<exists>pts isCcw out.
     LineStringCoordinates n g = Inr (JArr pts) \<and> length pts = n
     \<and> IsCcw (JArr pts) = Inr isCcw
     \<and> out = (if isCcw = ccw then pts else rev pts)
     \<and> LinearRingCoordinates n ccw g = Inr (JArr (out @ [hd out]))
     \<and> butlast (out @ [hd out]) = out"
proof -
  assume n: "3 \<le> n"
  let ?pts = "map (point_at g) [0..<n]"
  let ?b = "shoelace_sum (map (lon_lat g) [0..<n]) < 0"
  let ?out = "if ?b = ccw then ?pts else rev ?pts"
  have h1: "hd ?pts = point_at g 0" using n by (simp add: hd_map upt_conv_Cons)
  have h2: "hd (rev ?pts) = point_at g (n - 1)"
  proof -
    have "[0..<n] \<noteq> []" using n by simp
    then have "hd (rev ?pts) = last ?pts" by (simp add: hd_rev)
    also have "\<dots> = point_at g (last [0..<n])" using n by (simp add: last_map)
    also have "last [0..<n] = n - 1" using n by simp
    finally show ?thesis .
  qed
  have "LineStringCoordinates n g = Inr (JArr ?pts)"
    using n by (simp add: LineStringCoordinates_eq)
  moreover have "IsCcw (JArr ?pts) = Inr ?b" by (rule IsCcw_points)
  moreover have "LinearRingCoordinates n ccw g = Inr (JArr (?out @ [hd ?out]))"
    using n h1 h2 by (simp add: LinearRingCoordinates_eq)
  ultimately show ?thesis by (intro exI [of _ ?pts] exI [of _ ?b] exI [of _ ?out]) simp
qed

theorem LinearRingCoordinates_reverses_iff_differs_witness:
  "(\<exists>pts isCcw out.
      LineStringCoordinates 4 test_square = Inr (JArr pts) \<and> length pts = 4
      \<and> IsCcw (JArr pts) = Inr isCcw
      \<and> out = (if isCcw = False then pts else rev pts)
      \<and> LinearRingCoordinates 4 False test_square = Inr (JArr (out @ [hd out]))
      \<and> butlast (out @ [hd out]) = out)
   \<and> IsCcw (JArr [Position3 0 0 (1 / 2), Position3 (3 / 2) 0 (3 / 10),
                   Position3 (3 / 2) (3 / 2) (3 / 5), Position3 0 (3 / 2) (9 / 10 :: real)])
       = Inr True
   \<and> LinearRingCoordinates 4 True test_square
       = Inr (JArr [Position3 0 0 (1 / 2), Position3 (3 / 2) 0 (3 / 10),
                    Position3 (3 / 2) (3 / 2) (3 / 5), Position3 0 (3 / 2) (9 / 10),
                    Position3 0 0 (1 / 2)])
   \<and> LinearRingCoordinates 4 False test_square
       = Inr (JArr [Position3 0 (3 / 2) (9 / 10), Position3 (3 / 2) (3 / 2) (3 / 5),
                    Position3 (3 / 2) 0 (3 / 10), Position3 0 0 (1 / 2),
                    Position3 0 (3 / 2) (9 / 10)])"
proof -
  have three: "(3::nat) \<le> 4" by simp
  have "IsCcw (JArr [Position3 0 0 (1 / 2), Position3 (3 / 2) 0 (3 / 10),
                   Position3 (3 / 2) (3 / 2) (3 / 5), Position3 0 (3 / 2) (9 / 10 :: real)])
       = Inr True"
    by (simp add: IsCcw_def cwEdgeSum_def jsize_def for_loop.simps at_index_def get_double_def
        Position3_def)
  moreover have "LinearRingCoordinates 4 True test_square
       = Inr (JArr [Position3 0 0 (1 / 2), Position3 (3 / 2) 0 (3 / 10),
                    Position3 (3 / 2) (3 / 2) (3 / 5), Position3 0 (3 / 2) (9 / 10),
                    Position3 0 0 (1 / 2)])"
    by (simp add: LinearRingCoordinates_eq shoelace_sum_def edge_term_def test_square_def
        position_defs upt_small)
  moreover have "LinearRingCoordinates 4 False test_square
       = Inr (JArr [Position3 0 (3 / 2) (9 / 10), Position3 (3 / 2) (3 / 2) (3 / 5),
                    Position3 (3 / 2) 0 (3 / 10), Position3 0 0 (1 / 2),
                    Position3 0 (3 / 2) (9 / 10)])"
    by (simp add: LinearRingCoordinates_eq shoelace_sum_def edge_term_def test_square_def
        position_defs upt_small)
  ultimately show ?thesis
    using LinearRingCoordinates_reverses_iff_differs [OF three, of test_square False]
    by simp
qed







text \<open>
  C2, as the code has it. On a sequence of positions, the accumulator of \<^verbatim>\<open>IsCcw\<close> is the
  sum of \<open>(x2 - x1) * (y2 + y1)\<close> over the pairs of elements \<open>i\<close> and \<open>(i + 1) mod size\<close>,
  added from the left starting at 0, whatever the arithmetic. \<^verbatim>\<open>IsCcw\<close> throws nothing:
  it answers true exactly when the accumulator is strictly negative, and false whenever
  it is not. So a zero sum is answered as not counter-clockwise, which
  \<^verbatim>\<open>LinearRingCoordinates\<close> takes for clockwise. In exact arithmetic the accumulator is the
  sum over the indices, in any order.
\<close>

theorem IsCcw_iff_negative_sum:
  fixes g :: "(nat, 'a::{zero,plus,minus,times,ord}) callback"
    and ps :: "(('b::comm_ring) \<times> 'b) list"
  shows
  "cwEdgeSum (JArr (map (point_at g) ks)) = Inr (shoelace_sum (map (lon_lat g) ks))
   \<and> (IsCcw (JArr (map (point_at g) ks)) = Inr True)
       = (shoelace_sum (map (lon_lat g) ks) < 0)
   \<and> (IsCcw (JArr (map (point_at g) ks)) = Inr False)
       = (\<not> shoelace_sum (map (lon_lat g) ks) < 0)
   \<and> (\<forall>e. IsCcw (JArr (map (point_at g) ks)) \<noteq> Inl e)
   \<and> shoelace_sum ps = (\<Sum>i<length ps. edge_term (ps ! i) (ps ! ((i + 1) mod length ps)))"
  using shoelace_sum_eq_sum [of ps]
  by (simp add: cwEdgeSum_points IsCcw_points del: One_nat_def)

text \<open>
  C2 fails on the second outer ring of the \<^verbatim>\<open>MultiPolygonCoordinates\<close> test, whose three
  points lie on one line: the sum is zero, not strictly positive, and yet the sequence
  is taken for clockwise, since a ring asked to be clockwise is returned in its own order.
\<close>

theorem zero_sum_taken_for_clockwise:
  "cwEdgeSum (JArr [Position3 1 2 3, Position3 4 5 6, Position3 7 8 (9::real)]) = Inr 0
   \<and> IsCcw (JArr [Position3 1 2 3, Position3 4 5 6, Position3 7 8 (9::real)]) = Inr False
   \<and> LinearRingCoordinates 3 False test_line
       = Inr (JArr [Position3 1 2 3, Position3 4 5 6, Position3 7 8 9, Position3 1 2 3])"
proof -
  have "cwEdgeSum (JArr [Position3 1 2 3, Position3 4 5 6, Position3 7 8 (9::real)]) = Inr 0"
    by (simp add: cwEdgeSum_def jsize_def for_loop.simps at_index_def get_double_def
        Position3_def)
  moreover from this
  have "IsCcw (JArr [Position3 1 2 3, Position3 4 5 6, Position3 7 8 (9::real)]) = Inr False"
    by (simp add: IsCcw_def)
  moreover have "LinearRingCoordinates 3 False test_line
       = Inr (JArr [Position3 1 2 3, Position3 4 5 6, Position3 7 8 9, Position3 1 2 3])"
    by (simp add: LinearRingCoordinates_eq shoelace_sum_def edge_term_def test_line_def
        position_defs upt_small)
  ultimately show ?thesis by simp
qed

text \<open>
  C1, as the code has it. For 3 points or more \<^verbatim>\<open>LinearRingCoordinates\<close> returns a
  sequence of one element more than the points, whose first and last elements are
  equal. Its first \<open>n\<close> elements are the points in their own order when \<^verbatim>\<open>IsCcw\<close> of the
  points equals the orientation asked for, and the points reversed when it differs; so
  \<^verbatim>\<open>IsCcw\<close> of these elements is the orientation asked for exactly when \<^verbatim>\<open>IsCcw\<close> of
  the points, or of the points reversed, is. This first part holds for any arithmetic on
  the coordinates. The second part is for exact arithmetic: the sum of the reversed
  points is the negated sum, so when the sum of the points is not zero, the sum of the
  first \<open>m\<close> elements of the ring is strictly negative if counter-clockwise was asked for
  and strictly positive if clockwise was; when the sum of the points is zero, so is that
  of the ring, and \<^verbatim>\<open>IsCcw\<close> answers false whatever was asked for.
\<close>

theorem LinearRingCoordinates_closed_and_oriented:
  fixes g :: "(nat, 'a::{zero,plus,minus,times,ord}) callback"
    and h :: "(nat, 'b::linordered_idom) callback"
  shows
  "(3 \<le> n \<longrightarrow>
      (\<exists>pts b b' ring.
         LineStringCoordinates n g = Inr (JArr pts)
         \<and> IsCcw (JArr pts) = Inr b \<and> IsCcw (JArr (rev pts)) = Inr b'
         \<and> LinearRingCoordinates n ccw g = Inr (JArr ring)
         \<and> length ring = n + 1 \<and> hd ring = last ring \<and> ring ! 0 = ring ! n
         \<and> take n ring = (if b = ccw then pts else rev pts)
         \<and> IsCcw (JArr (take n ring)) = Inr (if b = ccw then b else b')
         \<and> (IsCcw (JArr (take n ring)) = Inr ccw) = (b = ccw \<or> b' = ccw)))
   \<and> (3 \<le> m \<longrightarrow>
      (\<exists>pts ring s s'.
         LineStringCoordinates m h = Inr (JArr pts) \<and> cwEdgeSum (JArr pts) = Inr s
         \<and> LinearRingCoordinates m ccw' h = Inr (JArr ring)
         \<and> length ring = m + 1 \<and> hd ring = last ring \<and> ring ! 0 = ring ! m
         \<and> cwEdgeSum (JArr (take m ring)) = Inr s'
         \<and> IsCcw (JArr (take m ring)) = Inr (s' < 0)
         \<and> (s \<noteq> 0 \<longrightarrow> (if ccw' then s' < 0 else 0 < s'))
         \<and> (s = 0 \<longrightarrow> s' = 0)))"
proof (intro conjI impI)
  assume n: "3 \<le> n"
  from LinearRingCoordinates_shape [OF n, of g ccw]
  obtain pts b b' out where
    s: "LineStringCoordinates n g = Inr (JArr pts)" "length pts = n"
       "IsCcw (JArr pts) = Inr b" "IsCcw (JArr (rev pts)) = Inr b'"
       "out = (if b = ccw then pts else rev pts)"
       "LinearRingCoordinates n ccw g = Inr (JArr (out @ [hd out]))"
       "IsCcw (JArr out) = Inr (if b = ccw then b else b')"
    by blast
  let ?ring = "out @ [hd out]"
  have len: "length out = n" using s(2,5) by simp
  then have ne: "out \<noteq> []" using n by auto
  have tk: "take n ?ring = out" using len by simp
  have "length ?ring = n + 1" using len by simp
  moreover have "hd ?ring = last ?ring" using ne by simp
  moreover have "?ring ! 0 = ?ring ! n" using ne len by (simp add: nth_append hd_conv_nth)
  moreover have "take n ?ring = (if b = ccw then pts else rev pts)" using tk s(5) by simp
  moreover have v: "IsCcw (JArr (take n ?ring)) = Inr (if b = ccw then b else b')"
    using tk s(7) by simp
  moreover have "(IsCcw (JArr (take n ?ring)) = Inr ccw) = (b = ccw \<or> b' = ccw)"
    unfolding v by auto
  ultimately show "\<exists>pts b b' ring.
         LineStringCoordinates n g = Inr (JArr pts)
         \<and> IsCcw (JArr pts) = Inr b \<and> IsCcw (JArr (rev pts)) = Inr b'
         \<and> LinearRingCoordinates n ccw g = Inr (JArr ring)
         \<and> length ring = n + 1 \<and> hd ring = last ring \<and> ring ! 0 = ring ! n
         \<and> take n ring = (if b = ccw then pts else rev pts)
         \<and> IsCcw (JArr (take n ring)) = Inr (if b = ccw then b else b')
         \<and> (IsCcw (JArr (take n ring)) = Inr ccw) = (b = ccw \<or> b' = ccw)"
    using s(1,3,4,6) by blast
next
  assume "3 \<le> m"
  then show "\<exists>pts ring s s'.
         LineStringCoordinates m h = Inr (JArr pts) \<and> cwEdgeSum (JArr pts) = Inr s
         \<and> LinearRingCoordinates m ccw' h = Inr (JArr ring)
         \<and> length ring = m + 1 \<and> hd ring = last ring \<and> ring ! 0 = ring ! m
         \<and> cwEdgeSum (JArr (take m ring)) = Inr s'
         \<and> IsCcw (JArr (take m ring)) = Inr (s' < 0)
         \<and> (s \<noteq> 0 \<longrightarrow> (if ccw' then s' < 0 else 0 < s'))
         \<and> (s = 0 \<longrightarrow> s' = 0)"
    by (rule exact_ring_orientation)
qed

theorem LinearRingCoordinates_closed_and_oriented_witness:
  "(\<exists>pts b b' ring.
      LineStringCoordinates 3 rounded_ring = Inr (JArr pts)
      \<and> IsCcw (JArr pts) = Inr b \<and> IsCcw (JArr (rev pts)) = Inr b'
      \<and> LinearRingCoordinates 3 True rounded_ring = Inr (JArr ring)
      \<and> length ring = 3 + 1 \<and> hd ring = last ring \<and> ring ! 0 = ring ! 3
      \<and> take 3 ring = (if b = True then pts else rev pts)
      \<and> IsCcw (JArr (take 3 ring)) = Inr (if b = True then b else b')
      \<and> (IsCcw (JArr (take 3 ring)) = Inr True) = (b = True \<or> b' = True))
   \<and> (\<exists>pts ring s s'.
        LineStringCoordinates 4 test_square = Inr (JArr pts) \<and> cwEdgeSum (JArr pts) = Inr s
        \<and> LinearRingCoordinates 4 False test_square = Inr (JArr ring)
        \<and> length ring = 4 + 1 \<and> hd ring = last ring \<and> ring ! 0 = ring ! 4
        \<and> cwEdgeSum (JArr (take 4 ring)) = Inr s'
        \<and> IsCcw (JArr (take 4 ring)) = Inr (s' < 0)
        \<and> (s \<noteq> 0 \<longrightarrow> (if False then s' < 0 else 0 < s'))
        \<and> (s = 0 \<longrightarrow> s' = 0))
   \<and> cwEdgeSum (JArr [Position3 0 0 (1 / 2), Position3 (3 / 2) 0 (3 / 10),
                       Position3 (3 / 2) (3 / 2) (3 / 5), Position3 0 (3 / 2) (9 / 10 :: real)])
       = Inr (- (9 / 2))
   \<and> cwEdgeSum (JArr [Position3 0 (3 / 2) (9 / 10), Position3 (3 / 2) (3 / 2) (3 / 5),
                       Position3 (3 / 2) 0 (3 / 10), Position3 0 0 (1 / 2 :: real)])
       = Inr (9 / 2)"
proof -
  have three: "(3::nat) \<le> 3" and four: "(3::nat) \<le> 4" by simp_all
  have a: "cwEdgeSum (JArr [Position3 0 0 (1 / 2), Position3 (3 / 2) 0 (3 / 10),
                       Position3 (3 / 2) (3 / 2) (3 / 5), Position3 0 (3 / 2) (9 / 10 :: real)])
       = Inr (- (9 / 2))"
    by (simp add: cwEdgeSum_def jsize_def for_loop.simps at_index_def get_double_def
        Position3_def)
  have b: "cwEdgeSum (JArr [Position3 0 (3 / 2) (9 / 10), Position3 (3 / 2) (3 / 2) (3 / 5),
                       Position3 (3 / 2) 0 (3 / 10), Position3 0 0 (1 / 2 :: real)])
       = Inr (9 / 2)"
    by (simp add: cwEdgeSum_def jsize_def for_loop.simps at_index_def get_double_def
        Position3_def)
  from LinearRingCoordinates_closed_and_oriented [where n = 3 and g = rounded_ring
      and ccw = True and m = 4 and h = test_square and ccw' = False] three four
  have "(\<exists>pts b b' ring.
      LineStringCoordinates 3 rounded_ring = Inr (JArr pts)
      \<and> IsCcw (JArr pts) = Inr b \<and> IsCcw (JArr (rev pts)) = Inr b'
      \<and> LinearRingCoordinates 3 True rounded_ring = Inr (JArr ring)
      \<and> length ring = 3 + 1 \<and> hd ring = last ring \<and> ring ! 0 = ring ! 3
      \<and> take 3 ring = (if b = True then pts else rev pts)
      \<and> IsCcw (JArr (take 3 ring)) = Inr (if b = True then b else b')
      \<and> (IsCcw (JArr (take 3 ring)) = Inr True) = (b = True \<or> b' = True))
   \<and> (\<exists>pts ring s s'.
        LineStringCoordinates 4 test_square = Inr (JArr pts) \<and> cwEdgeSum (JArr pts) = Inr s
        \<and> LinearRingCoordinates 4 False test_square = Inr (JArr ring)
        \<and> length ring = 4 + 1 \<and> hd ring = last ring \<and> ring ! 0 = ring ! 4
        \<and> cwEdgeSum (JArr (take 4 ring)) = Inr s'
        \<and> IsCcw (JArr (take 4 ring)) = Inr (s' < 0)
        \<and> (s \<noteq> 0 \<longrightarrow> (if False then s' < 0 else 0 < s'))
        \<and> (s = 0 \<longrightarrow> s' = 0))"
    by blast
  with a b show ?thesis by blast
qed

text \<open>
  C1 fails on the three points on one line of the unit tests: asked for a
  counter-clockwise ring, the code reverses them and closes the ring, and \<^verbatim>\<open>IsCcw\<close> of
  its first three elements is still false, the sum being zero in either order. It also
  fails where \<^verbatim>\<open>double\<close> rounds: the three points (5,1), (536870920,536870921),
  (1073741824,1073741830) are counter-clockwise, with the exact sum -55, but the
  accumulator, each operation rounded to 53 bits, is 0 in either order; so the code
  reverses them, into clockwise order, and \<^verbatim>\<open>IsCcw\<close> of the result is false.
\<close>

theorem ring_not_made_counter_clockwise:
  "LinearRingCoordinates 3 True test_line
     = Inr (JArr [Position3 7 8 9, Position3 4 5 6, Position3 1 2 3, Position3 7 8 9])
   \<and> IsCcw (JArr (take 3 [Position3 7 8 9, Position3 4 5 6, Position3 1 2 3,
                           Position3 7 8 (9::real)])) = Inr False
   \<and> shoelace_sum [(5, 1), (536870920, 536870921), (1073741824, 1073741830)] = (- 55 :: int)
   \<and> LinearRingCoordinates 3 True rounded_ring
     = Inr (JArr [Position2 (Dbl 1073741824) (Dbl 1073741830),
                  Position2 (Dbl 536870920) (Dbl 536870921),
                  Position2 (Dbl 5) (Dbl 1),
                  Position2 (Dbl 1073741824) (Dbl 1073741830)])
   \<and> IsCcw (JArr (take 3 [Position2 (Dbl 1073741824) (Dbl 1073741830),
                           Position2 (Dbl 536870920) (Dbl 536870921),
                           Position2 (Dbl 5) (Dbl 1),
                           Position2 (Dbl 1073741824) (Dbl 1073741830)])) = Inr False"
proof -
  have "LinearRingCoordinates 3 True test_line
     = Inr (JArr [Position3 7 8 9, Position3 4 5 6, Position3 1 2 3, Position3 7 8 9])"
    by (simp add: LinearRingCoordinates_eq shoelace_sum_def edge_term_def test_line_def
        position_defs upt_small)
  moreover
  have "IsCcw (JArr (take 3 [Position3 7 8 9, Position3 4 5 6, Position3 1 2 3,
                           Position3 7 8 (9::real)])) = Inr False"
    by (simp add: IsCcw_def cwEdgeSum_def jsize_def for_loop.simps at_index_def get_double_def
        Position3_def)
  moreover
  have "shoelace_sum [(5, 1), (536870920, 536870921), (1073741824, 1073741830)] = (- 55 :: int)"
    by (simp add: shoelace_sum_def edge_term_def upt_small)
  moreover
  have "LinearRingCoordinates 3 True rounded_ring
     = Inr (JArr [Position2 (Dbl 1073741824) (Dbl 1073741830),
                  Position2 (Dbl 536870920) (Dbl 536870921),
                  Position2 (Dbl 5) (Dbl 1),
                  Position2 (Dbl 1073741824) (Dbl 1073741830)])"
    by (simp add: LinearRingCoordinates_eq shoelace_sum_def edge_term_def rounded_ring_def
        position_defs upt_small dbl_defs round53_small round53_minus round53_values)
  moreover
  have "IsCcw (JArr (take 3 [Position2 (Dbl 1073741824) (Dbl 1073741830),
                           Position2 (Dbl 536870920) (Dbl 536870921),
                           Position2 (Dbl 5) (Dbl 1),
                           Position2 (Dbl 1073741824) (Dbl 1073741830)])) = Inr False"
    by (simp add: IsCcw_def cwEdgeSum_def jsize_def for_loop.simps at_index_def get_double_def
        Position2_def dbl_defs round53_small round53_minus round53_values)
  ultimately show ?thesis by blast
qed

end
